theory Spec2Isabelle
  imports Complex_Main "HOL-Library.Multiset"
begin

section \<open>JavaScript string primitives used by server.js\<close>

text \<open>
  Strings are \<^typ>\<open>string\<close>. A request field that is absent (\<open>undefined\<close>) and a field
  that is the empty string are both written \<open>''''\<close> where the source only tests the field
  for truthiness or hands it to a \<open>required\<close> validator, which treat the two alike.
\<close>

definition lowerChar :: "char \<Rightarrow> char" where
  "lowerChar c = (let n = (of_char c :: nat) in if 65 \<le> n \<and> n \<le> 90 then char_of (n + 32) else c)"

definition upperChar :: "char \<Rightarrow> char" where
  "upperChar c = (let n = (of_char c :: nat) in if 97 \<le> n \<and> n \<le> 122 then char_of (n - 32) else c)"

definition isAscii :: "char \<Rightarrow> bool" where
  "isAscii c = ((of_char c :: nat) < 128)"

text \<open>
  \<open>s.toLowerCase()\<close>. On a string of ASCII characters it folds \<open>A\<close> to \<open>Z\<close> and leaves the
  rest. On any other string the result comes from the Unicode case mapping of the
  JavaScript runtime, which is not modelled: it is the parameter \<open>unicodeLower\<close>, about
  which nothing is assumed.
\<close>

definition toLowerCase :: "(string \<Rightarrow> string) \<Rightarrow> string \<Rightarrow> string" where
  "toLowerCase unicodeLower s = (if list_all isAscii s then map lowerChar s else unicodeLower s)"

text \<open>
  \<open>s.toUpperCase()\<close>, which server.js applies only to the text of a number in base 36:
  digits and the letters \<open>a\<close> to \<open>z\<close>.
\<close>

definition toUpperCase :: "string \<Rightarrow> string" where
  "toUpperCase s = map upperChar s"

text \<open>\<open>s.slice(-k)\<close>: the last \<open>k\<close> characters, the whole string when it is shorter.\<close>

definition sliceLast :: "nat \<Rightarrow> string \<Rightarrow> string" where
  "sliceLast k s = drop (length s - k) s"

text \<open>\<open>s.substring(a, b)\<close> for \<open>a \<le> b\<close>.\<close>

definition substring :: "nat \<Rightarrow> nat \<Rightarrow> string \<Rightarrow> string" where
  "substring a b s = take (b - a) (drop a s)"

definition digit :: "nat \<Rightarrow> char" where
  "digit d = char_of (48 + d)"

text \<open>\<open>n.toString()\<close> for a non-negative integer: its decimal digits.\<close>

function toString :: "nat \<Rightarrow> string" where
  "toString n = (if n < 10 then [digit n] else toString (n div 10) @ [digit (n mod 10)])"
  by pat_completeness auto
termination
  by (relation "measure id") auto

declare toString.simps [simp del]

section \<open>Data model (the two mongoose schemas)\<close>

type_synonym objectId = string
type_synonym date = nat

record customer =
  cust_id :: objectId
  email :: string
  firstName :: string
  lastName :: string
  phone :: string
  cust_createdAt :: date

datatype orderType = Room | Food

datatype orderStatus = Pending | Paid | Confirmed | Cancelled

datatype payStatus = PayPending | PaySuccess | PayFailed

record item =
  item_id :: string
  item_name :: string
  price :: int
  quantity :: nat
  category :: string

record order =
  order_id :: objectId
  customer :: objectId
  orderCode :: string
  otype :: orderType
  items :: "item list"
  totalAmount :: int
  status :: orderStatus
  paymentReference :: "string option"
  paymentStatus :: payStatus
  createdAt :: date
  updatedAt :: date

text \<open>
  The two collections, in insertion order: \<open>findOne\<close> returns the first document that
  matches.
\<close>

record db =
  customers :: "customer list"
  orders :: "order list"

section \<open>generateOrderCode (server.js 71-76)\<close>

text \<open>
  The two reads of the environment are parameters: \<open>now\<close> is \<open>Date.now()\<close> and \<open>rnd36\<close> is
  the text \<open>Math.random().toString(36)\<close> evaluates to (\<open>0.\<close> followed by the base-36 digits
  of the fraction, or \<open>0\<close> alone for the number 0). The function reads no collection.
\<close>

definition generateOrderCode :: "nat \<Rightarrow> string \<Rightarrow> string" where
  "generateOrderCode now rnd36 =
     (let prefix = ''PH'';
          timestamp = sliceLast 6 (toString now);
          random = toUpperCase (substring 2 6 rnd36)
      in prefix @ timestamp @ random)"

section \<open>Store operations (the mongoose calls the handlers make)\<close>

datatype failure = ValidationError | DuplicateKey | TypeError | Message string

definition findCustomerByEmail :: "string \<Rightarrow> db \<Rightarrow> customer option" where
  "findCustomerByEmail e d = find (\<lambda>c. email c = e) (customers d)"

definition findCustomerById :: "objectId \<Rightarrow> db \<Rightarrow> customer option" where
  "findCustomerById i d = find (\<lambda>c. cust_id c = i) (customers d)"

definition findOrderByCode :: "string \<Rightarrow> db \<Rightarrow> order option" where
  "findOrderByCode code d = find (\<lambda>x. orderCode x = code) (orders d)"

definition findOrderById :: "objectId \<Rightarrow> db \<Rightarrow> order option" where
  "findOrderById i d = find (\<lambda>x. order_id x = i) (orders d)"

text \<open>
  \<open>Order.findOne({ paymentReference: reference })\<close>. The reference asked for may be
  \<open>undefined\<close> (\<open>None\<close>), which the query matches against orders that have none.
\<close>

definition findOrderByReference :: "string option \<Rightarrow> db \<Rightarrow> order option" where
  "findOrderByReference r d = find (\<lambda>x. paymentReference x = r) (orders d)"

definition findOrdersByCustomer :: "objectId \<Rightarrow> db \<Rightarrow> order list" where
  "findOrdersByCustomer i d = filter (\<lambda>x. customer x = i) (orders d)"

text \<open>\<open>.populate('customer')\<close>: the order together with the customer document it refers to.\<close>

definition populate :: "db \<Rightarrow> order \<Rightarrow> order \<times> customer option" where
  "populate d x = (x, findCustomerById (customer x) d)"

text \<open>\<open>.sort({ createdAt: -1 })\<close>\<close>

definition sortNewestFirst :: "order list \<Rightarrow> order list" where
  "sortNewestFirst xs = rev (sort_key createdAt xs)"

text \<open>
  \<open>customer.save()\<close> of a new document: the schema's four \<open>required\<close> strings are
  validated first, then the unique indexes on \<open>_id\<close> and \<open>email\<close> decide.
\<close>

definition saveNewCustomer :: "customer \<Rightarrow> db \<Rightarrow> failure + db" where
  "saveNewCustomer c d =
     (if email c = '''' \<or> firstName c = '''' \<or> lastName c = '''' \<or> phone c = ''''
      then Inl ValidationError
      else if findCustomerById (cust_id c) d = None \<and> findCustomerByEmail (email c) d = None
      then Inr (d\<lparr>customers := customers d @ [c]\<rparr>)
      else Inl DuplicateKey)"

definition parseType :: "string \<Rightarrow> orderType option" where
  "parseType s = (if s = ''room'' then Some Room else if s = ''food'' then Some Food else None)"

text \<open>
  \<open>order.save()\<close> of a new document: \<open>type\<close> must be one of the enum's two strings and
  \<open>totalAmount\<close> must be present; then the unique indexes on \<open>_id\<close> and \<open>orderCode\<close> decide.
  The schema defaults fill \<open>status\<close>, \<open>paymentStatus\<close>, \<open>createdAt\<close> and \<open>updatedAt\<close>.
\<close>

definition saveNewOrder ::
  "objectId \<Rightarrow> date \<Rightarrow> objectId \<Rightarrow> string \<Rightarrow> string \<Rightarrow> item list \<Rightarrow> int option \<Rightarrow> db
     \<Rightarrow> failure + (order \<times> db)" where
  "saveNewOrder newId now cid code ty its amount d =
     (case parseType ty of
        None \<Rightarrow> Inl ValidationError
      | Some t \<Rightarrow>
          (case amount of
             None \<Rightarrow> Inl ValidationError
           | Some amt \<Rightarrow>
               if findOrderById newId d = None \<and> findOrderByCode code d = None
               then
                 (let ord = \<lparr>order_id = newId, customer = cid, orderCode = code, otype = t,
                              items = its, totalAmount = amt, status = Pending,
                              paymentReference = None, paymentStatus = PayPending,
                              createdAt = now, updatedAt = now\<rparr>
                  in Inr (ord, d\<lparr>orders := orders d @ [ord]\<rparr>))
               else Inl DuplicateKey))"

text \<open>\<open>order.save()\<close> of a document read from the store: it is written back under its \<open>_id\<close>.\<close>

definition saveOrder :: "order \<Rightarrow> db \<Rightarrow> db" where
  "saveOrder ord d =
     d\<lparr>orders := map (\<lambda>x. if order_id x = order_id ord then ord else x) (orders d)\<rparr>"

section \<open>Responses\<close>

datatype payload =
    CustomerPayload customer
  | OrderPayload order string
  | InitPayload string string string
  | VerifyPayload string rat string
  | OrderVerifiedPayload order customer
  | OrdersPayload "(order \<times> customer option) list" customer
  | ErrorPayload failure
  | Text string

type_synonym response = "nat \<times> payload"

section \<open>POST /api/customers (server.js 84-99)\<close>

record customerProfile =
  cd_email :: string
  cd_firstName :: string
  cd_lastName :: string
  cd_phone :: string

definition newCustomer :: "objectId \<Rightarrow> date \<Rightarrow> customerProfile \<Rightarrow> customer" where
  "newCustomer newId now p =
     \<lparr>cust_id = newId, email = cd_email p, firstName = cd_firstName p,
      lastName = cd_lastName p, phone = cd_phone p, cust_createdAt = now\<rparr>"

text \<open>
  Lines 88-93, and again 107-112: \<open>Customer.findOne({ email })\<close>, and a new customer saved
  when there is none. \<open>newId\<close> is the \<open>_id\<close> the driver gives a new document and \<open>now\<close> the
  clock.
\<close>

definition createOrFindCustomer ::
  "objectId \<Rightarrow> date \<Rightarrow> customerProfile \<Rightarrow> db \<Rightarrow> failure + (customer \<times> db)" where
  "createOrFindCustomer newId now p d =
     (case findCustomerByEmail (cd_email p) d of
        Some c \<Rightarrow> Inr (c, d)
      | None \<Rightarrow>
          (case saveNewCustomer (newCustomer newId now p) d of
             Inl err \<Rightarrow> Inl err
           | Inr d' \<Rightarrow> Inr (newCustomer newId now p, d')))"

definition postCustomers :: "objectId \<Rightarrow> date \<Rightarrow> customerProfile \<Rightarrow> db \<Rightarrow> response \<times> db" where
  "postCustomers newId now body d =
     (case createOrFindCustomer newId now body d of
        Inl err \<Rightarrow> ((400, ErrorPayload err), d)
      | Inr (c, d') \<Rightarrow> ((201, CustomerPayload c), d'))"

section \<open>POST /api/orders (server.js 102-145)\<close>

record orderBody =
  body_customerData :: "customerProfile option"
  body_items :: "item list"
  body_type :: string
  body_totalAmount :: "int option"

text \<open>
  The \<open>while (!isUnique)\<close> loop of lines 118-124. \<open>env i\<close> is what the \<open>i\<close>-th call of
  \<open>generateOrderCode\<close> reads from the clock and from \<open>Math.random\<close>, and \<open>candidate env i\<close>
  is the code that call returns; the loop returns the code it settled on and the number
  of calls made so far. The loop has no other exit, so
  it is a partial function: \<open>None\<close> is a loop that never ends.
\<close>

definition candidate :: "(nat \<Rightarrow> nat \<times> string) \<Rightarrow> nat \<Rightarrow> string" where
  "candidate env i = generateOrderCode (fst (env i)) (snd (env i))"

partial_function (option) allocateOrderCode ::
  "(nat \<Rightarrow> nat \<times> string) \<Rightarrow> db \<Rightarrow> nat \<Rightarrow> (string \<times> nat) option" where
  "allocateOrderCode env d i =
     (case findOrderByCode (candidate env i) d of
        None \<Rightarrow> Some (candidate env i, Suc i)
      | Some existingOrder \<Rightarrow> allocateOrderCode env d (Suc i))"

text \<open>The handler. \<open>None\<close>: the request never gets a response.\<close>

definition postOrders ::
  "objectId \<Rightarrow> objectId \<Rightarrow> date \<Rightarrow> (nat \<Rightarrow> nat \<times> string) \<Rightarrow> orderBody \<Rightarrow> db
     \<Rightarrow> (response \<times> db) option" where
  "postOrders newCustId newOrderId now env body d =
     (case body_customerData body of
        None \<Rightarrow> Some ((400, ErrorPayload TypeError), d)
      | Some p \<Rightarrow>
          (case createOrFindCustomer newCustId now p d of
             Inl err \<Rightarrow> Some ((400, ErrorPayload err), d)
           | Inr (c, d1) \<Rightarrow>
               (case allocateOrderCode env d1 0 of
                  None \<Rightarrow> None
                | Some (code, n) \<Rightarrow>
                    (case saveNewOrder newOrderId now (cust_id c) code (body_type body)
                            (body_items body) (body_totalAmount body) d1 of
                       Inl err \<Rightarrow> Some ((400, ErrorPayload err), d1)
                     | Inr (ord, d2) \<Rightarrow> Some ((201, OrderPayload ord code), d2)))))"

section \<open>POST /api/payments/initialize (server.js 148-199)\<close>

record paymentData =
  pd_email :: string
  pd_amount :: int
  pd_reference :: string
  pd_callback_url :: string
  pd_orderId :: objectId
  pd_customerName :: string
  pd_orderType :: orderType

text \<open>
  What \<open>axios.post\<close> to the gateway gives: it throws, or it returns a response whose
  \<open>data.data\<close> holds the authorization URL and the access code (or is missing).
\<close>

datatype initReply = InitRejected string | InitAccepted "(string \<times> string) option"

definition paymentReferenceFor :: "objectId \<Rightarrow> date \<Rightarrow> string" where
  "paymentReferenceFor i now = ''order_'' @ i @ ''_'' @ toString now"

text \<open>The \<open>paymentData\<close> object of lines 157-167.\<close>

definition paymentDataFor :: "date \<Rightarrow> string \<Rightarrow> string \<Rightarrow> order \<Rightarrow> customer \<Rightarrow> paymentData" where
  "paymentDataFor now frontendUrl em ord c =
     \<lparr>pd_email = (if em = '''' then email c else em),
      pd_amount = totalAmount ord * 100,
      pd_reference = paymentReferenceFor (order_id ord) now,
      pd_callback_url =
        (if frontendUrl = '''' then ''http://localhost:3000'' else frontendUrl)
          @ ''/payment/callback'',
      pd_orderId = order_id ord,
      pd_customerName = firstName c @ '' '' @ lastName c,
      pd_orderType = otype ord\<rparr>"

text \<open>
  The handler. A populated order whose customer is missing makes \<open>order.customer.firstName\<close>
  throw; a reply without \<open>data.data\<close> makes the final \<open>res.json\<close> throw, after the order
  has been saved.
\<close>

definition postPaymentsInitialize ::
  "date \<Rightarrow> string \<Rightarrow> (paymentData \<Rightarrow> initReply) \<Rightarrow> objectId \<Rightarrow> string \<Rightarrow> db \<Rightarrow> response \<times> db" where
  "postPaymentsInitialize now frontendUrl gateway orderId em d =
     (case findOrderById orderId d of
        None \<Rightarrow> ((404, ErrorPayload (Message ''Order not found'')), d)
      | Some ord \<Rightarrow>
          (case findCustomerById (customer ord) d of
             None \<Rightarrow> ((500, ErrorPayload (Message ''Payment initialization failed'')), d)
           | Some c \<Rightarrow>
               (case gateway (paymentDataFor now frontendUrl em ord c) of
                  InitRejected msg \<Rightarrow>
                    ((500, ErrorPayload (Message ''Payment initialization failed'')), d)
                | InitAccepted reply \<Rightarrow>
                    (case reply of
                       None \<Rightarrow>
                         ((500, ErrorPayload (Message ''Payment initialization failed'')),
                          saveOrder (ord\<lparr>paymentReference :=
                            Some (pd_reference (paymentDataFor now frontendUrl em ord c))\<rparr>) d)
                     | Some (url, access) \<Rightarrow>
                         ((200, InitPayload url access
                                  (pd_reference (paymentDataFor now frontendUrl em ord c))),
                          saveOrder (ord\<lparr>paymentReference :=
                            Some (pd_reference (paymentDataFor now frontendUrl em ord c))\<rparr>) d)))))"

section \<open>POST /api/payments/verify (server.js 202-243)\<close>

record verifyData =
  vd_status :: string
  vd_amount :: int
  vd_reference :: string

datatype verifyReply = VerifyRejected string | VerifyReplied "verifyData option"

text \<open>
  Lines 219-225, and again 351-358: the order found by its payment reference, if any, is
  marked paid and saved.
\<close>

definition applyPaymentSucceeded :: "date \<Rightarrow> string option \<Rightarrow> db \<Rightarrow> db" where
  "applyPaymentSucceeded now r d =
     (case findOrderByReference r d of
        None \<Rightarrow> d
      | Some ord \<Rightarrow>
          saveOrder (ord\<lparr>paymentStatus := PaySuccess, status := Paid, updatedAt := now\<rparr>) d)"

definition referenceText :: "string option \<Rightarrow> string" where
  "referenceText r = (case r of None \<Rightarrow> ''undefined'' | Some s \<Rightarrow> s)"

definition postPaymentsVerify ::
  "date \<Rightarrow> (string \<Rightarrow> verifyReply) \<Rightarrow> string option \<Rightarrow> db \<Rightarrow> response \<times> db" where
  "postPaymentsVerify now gateway r d =
     (case gateway (referenceText r) of
        VerifyRejected msg \<Rightarrow> ((500, ErrorPayload (Message ''Payment verification failed'')), d)
      | VerifyReplied None \<Rightarrow> ((500, ErrorPayload (Message ''Payment verification failed'')), d)
      | VerifyReplied (Some pd) \<Rightarrow>
          ((200, VerifyPayload (vd_status pd) (of_int (vd_amount pd) / 100) (vd_reference pd)),
           (if vd_status pd = ''success'' then applyPaymentSucceeded now r d else d)))"

section \<open>POST /api/orders/verify (server.js 284-337)\<close>

definition postOrdersVerify :: "(string \<Rightarrow> string) \<Rightarrow> string \<Rightarrow> string \<Rightarrow> db \<Rightarrow> response" where
  "postOrdersVerify unicodeLower em code d =
     (if em = '''' then (400, ErrorPayload (Message ''Email address is required''))
      else if code = '''' then
        (case findCustomerByEmail (toLowerCase unicodeLower em) d of
           None \<Rightarrow> (404, ErrorPayload (Message ''No orders found for this email address''))
         | Some c \<Rightarrow>
             (200, OrdersPayload
                     (map (populate d) (sortNewestFirst (findOrdersByCustomer (cust_id c) d))) c))
      else
        (case findOrderByCode code d of
           None \<Rightarrow> (404, ErrorPayload (Message ''Order not found''))
         | Some ord \<Rightarrow>
             (case findCustomerById (customer ord) d of
                None \<Rightarrow> (500, ErrorPayload TypeError)
              | Some c \<Rightarrow>
                  if toLowerCase unicodeLower (email c) = toLowerCase unicodeLower em
                  then (200, OrderVerifiedPayload ord c)
                  else (403, ErrorPayload
                          (Message ''This order does not belong to the provided email address'')))))"

section \<open>POST /api/webhooks/paystack (server.js 340-367)\<close>

datatype eventData = EventData (ed_reference: "string option")

record webhookEvent =
  ev_event :: string
  ev_data :: "eventData option"

text \<open>
  The text of the handler. Its first statement calls \<open>crypto.createHmac\<close>; the parameter
  \<open>crypto\<close> is what the identifier \<open>crypto\<close> offers under that name when the handler runs:
  \<open>Some hmacHex\<close> for a digest function (key and request body to the hex digest of the
  serialised body), \<open>None\<close> when there is no such function, and then the call throws and
  the \<open>catch\<close> block answers. \<open>secret\<close> is the environment's gateway key; without one
  \<open>createHmac\<close> throws as well.
\<close>

definition webhookHandler ::
  "(string \<Rightarrow> webhookEvent \<Rightarrow> string) option \<Rightarrow> date \<Rightarrow> string option \<Rightarrow> webhookEvent
     \<Rightarrow> string option \<Rightarrow> db \<Rightarrow> response \<times> db" where
  "webhookHandler crypto now secret body signature d =
     (case crypto of
        None \<Rightarrow> ((500, Text ''Webhook error''), d)
      | Some hmacHex \<Rightarrow>
          (case secret of
             None \<Rightarrow> ((500, Text ''Webhook error''), d)
           | Some key \<Rightarrow>
               if Some (hmacHex key body) = signature then
                 (if ev_event body = ''charge.success'' then
                    (case ev_data body of
                       None \<Rightarrow> ((500, Text ''Webhook error''), d)
                     | Some dat \<Rightarrow>
                         ((200, Text ''OK''), applyPaymentSucceeded now (ed_reference dat) d))
                  else ((200, Text ''OK''), d))
               else ((200, Text ''OK''), d)))"

text \<open>
  server.js requires express, mongoose, cors, dotenv and axios (lines 2-6) and nothing
  else: the identifier \<open>crypto\<close> is bound to no module that has \<open>createHmac\<close>.
\<close>

definition serverCrypto :: "(string \<Rightarrow> webhookEvent \<Rightarrow> string) option" where
  "serverCrypto = None"

text \<open>The handler as server.js runs it.\<close>

definition postWebhooksPaystack ::
  "date \<Rightarrow> string option \<Rightarrow> webhookEvent \<Rightarrow> string option \<Rightarrow> db \<Rightarrow> response \<times> db" where
  "postWebhooksPaystack now secret body signature d =
     webhookHandler serverCrypto now secret body signature d"

section \<open>Success signals, delivered in any order\<close>

text \<open>
  A success signal for a payment reference reaches the server either as a verify call,
  with the gateway's reply to it, or as a webhook delivery, with the key, the event and
  the signature header. \<open>deliver\<close> runs the handler the signal goes to, the webhook handler
  with the given binding of \<open>crypto\<close>; \<open>deliverAll\<close> runs them one after the other on the
  store the previous one left.
\<close>

datatype successSignal =
    ViaVerify date "string \<Rightarrow> verifyReply"
  | ViaWebhook date string webhookEvent "string option"

fun successFor :: "string \<Rightarrow> successSignal \<Rightarrow> bool" where
  "successFor ref (ViaVerify t gateway) =
     (case gateway ref of
        VerifyReplied (Some pd) \<Rightarrow> vd_status pd = ''success''
      | _ \<Rightarrow> False)"
| "successFor ref (ViaWebhook t key body signature) =
     (ev_event body = ''charge.success'' \<and> ev_data body = Some (EventData (Some ref)))"

text \<open>
  A signal the server can take in: every verify call, and a webhook delivery when there
  is a digest function and the signature header is the digest of the body.
\<close>

fun accepted :: "(string \<Rightarrow> webhookEvent \<Rightarrow> string) option \<Rightarrow> successSignal \<Rightarrow> bool" where
  "accepted crypto (ViaVerify t gateway) = True"
| "accepted crypto (ViaWebhook t key body signature) =
     (case crypto of
        None \<Rightarrow> False
      | Some hmacHex \<Rightarrow> signature = Some (hmacHex key body))"

fun deliver ::
  "(string \<Rightarrow> webhookEvent \<Rightarrow> string) option \<Rightarrow> string \<Rightarrow> successSignal \<Rightarrow> db \<Rightarrow> response \<times> db" where
  "deliver crypto ref (ViaVerify t gateway) d = postPaymentsVerify t gateway (Some ref) d"
| "deliver crypto ref (ViaWebhook t key body signature) d =
     webhookHandler crypto t (Some key) body signature d"

fun deliverAll ::
  "(string \<Rightarrow> webhookEvent \<Rightarrow> string) option \<Rightarrow> string \<Rightarrow> successSignal list \<Rightarrow> db
     \<Rightarrow> response list \<times> db" where
  "deliverAll crypto ref [] d = ([], d)"
| "deliverAll crypto ref (s # ss) d =
     (case deliver crypto ref s d of
        (r, d1) \<Rightarrow> (case deliverAll crypto ref ss d1 of (rs, d2) \<Rightarrow> (r # rs, d2)))"

fun signalTime :: "successSignal \<Rightarrow> date" where
  "signalTime (ViaVerify t gateway) = t"
| "signalTime (ViaWebhook t key body signature) = t"

text \<open>The store with every \<open>updatedAt\<close> blanked: what two stores share when they differ in
  nothing but refresh times.\<close>

definition eraseUpdatedAt :: "db \<Rightarrow> db" where
  "eraseUpdatedAt d = d\<lparr>orders := map (\<lambda>x. x\<lparr>updatedAt := 0\<rparr>) (orders d)\<rparr>"

section \<open>A small store for concrete runs\<close>

definition exampleCustomer :: customer where
  "exampleCustomer =
     \<lparr>cust_id = ''c1'', email = ''a@x.com'', firstName = ''A'', lastName = ''B'',
      phone = ''123'', cust_createdAt = 1000\<rparr>"

definition pizza :: item where
  "pizza = \<lparr>item_id = ''x'', item_name = ''Pizza'', price = 10, quantity = 2, category = ''''\<rparr>"

text \<open>An order whose payment has been initialized and not yet settled.\<close>

definition exampleOrder :: order where
  "exampleOrder =
     \<lparr>order_id = ''o1'', customer = ''c1'', orderCode = ''PH1234564FZY'', otype = Food,
      items = [pizza], totalAmount = 20, status = Pending,
      paymentReference = Some ''order_o1_1000'', paymentStatus = PayPending,
      createdAt = 1000, updatedAt = 1000\<rparr>"

definition exampleDb :: db where
  "exampleDb = \<lparr>customers = [exampleCustomer], orders = [exampleOrder]\<rparr>"

text \<open>A gateway that reports the given status for every reference.\<close>

definition gatewayReporting :: "string \<Rightarrow> string \<Rightarrow> verifyReply" where
  "gatewayReporting st r = VerifyReplied (Some \<lparr>vd_status = st, vd_amount = 2000, vd_reference = r\<rparr>)"

text \<open>A gateway that accepts every initialization.\<close>

definition gatewayAccepting :: "paymentData \<Rightarrow> initReply" where
  "gatewayAccepting pd = InitAccepted (Some (''https://checkout.paystack.com/abc'', ''abc''))"

text \<open>A stand-in for a digest function: any function of key and body will do for a run.\<close>

definition exampleHmac :: "string \<Rightarrow> webhookEvent \<Rightarrow> string" where
  "exampleHmac key body = key @ ''/'' @ ev_event body"

definition chargeSuccess :: "string \<Rightarrow> webhookEvent" where
  "chargeSuccess r = \<lparr>ev_event = ''charge.success'', ev_data = Some (EventData (Some r))\<rparr>"

text \<open>An environment whose generator keeps proposing the code of \<open>exampleOrder\<close>.\<close>

definition stuckEnv :: "nat \<Rightarrow> nat \<times> string" where
  "stuckEnv i = (1700000123456, ''0.4fzyo82mvyr'')"

text \<open>An environment that proposes that code six times and then another one.\<close>

definition collidingEnv :: "nat \<Rightarrow> nat \<times> string" where
  "collidingEnv i = (1700000123456, if i < 6 then ''0.4fzyo82mvyr'' else ''0.k3x9q1'')"

text \<open>The store after the payment of \<open>exampleOrder\<close> has been verified at time 2000.\<close>

definition paidDb :: db where
  "paidDb =
     exampleDb\<lparr>orders :=
       [exampleOrder\<lparr>paymentStatus := PaySuccess, status := Paid, updatedAt := 2000\<rparr>]\<rparr>"

section \<open>Properties of generateOrderCode\<close>

lemma toString_nonempty: "toString n \<noteq> []"
  by (subst toString.simps) simp

lemma toString_length: "10 ^ k \<le> n \<Longrightarrow> k < length (toString n)"
proof (induction k arbitrary: n)
  case 0
  then show ?case using toString_nonempty [of n] by (cases "toString n") auto
next
  case (Suc k)
  have a: "10 * 10 ^ k \<le> n" using Suc.prems by simp
  have "(1::nat) \<le> 10 ^ k" by simp
  then have b: "(10::nat) \<le> 10 * 10 ^ k" by linarith
  from b a have big: "10 \<le> n" by (rule order_trans)
  from a have "10 ^ k \<le> n div 10" by linarith
  then have "k < length (toString (n div 10))" using Suc.IH by blast
  moreover have "toString n = toString (n div 10) @ [digit (n mod 10)]"
    using big by (subst toString.simps) simp
  ultimately show ?case by simp
qed

text \<open>The prefix is always there, and the code never has more than 12 characters.\<close>

lemma generateOrderCode_prefix: "take 2 (generateOrderCode now rnd36) = ''PH''"
  by (simp add: generateOrderCode_def)

lemma generateOrderCode_length_le: "length (generateOrderCode now rnd36) \<le> 12"
  by (simp add: generateOrderCode_def sliceLast_def toUpperCase_def substring_def)

text \<open>
  The code has its full 12 characters when the clock has at least six digits and the
  base-36 text has at least four digits after \<open>0.\<close>.
\<close>

lemma generateOrderCode_length:
  assumes "10 ^ 5 \<le> now" and "6 \<le> length rnd36"
  shows "length (generateOrderCode now rnd36) = 12"
proof -
  have "5 < length (toString now)" using assms(1) by (rule toString_length)
  then have "length (sliceLast 6 (toString now)) = 6" by (simp add: sliceLast_def)
  moreover have "length (toUpperCase (substring 2 6 rnd36)) = 4"
    using assms(2) by (simp add: toUpperCase_def substring_def)
  ultimately show ?thesis by (simp add: generateOrderCode_def)
qed

lemma digit_simps:
  "digit 0 = CHR ''0''" "digit (Suc 0) = CHR ''1''" "digit 2 = CHR ''2''" "digit 3 = CHR ''3''"
  "digit 4 = CHR ''4''" "digit 5 = CHR ''5''" "digit 6 = CHR ''6''" "digit 7 = CHR ''7''"
  "digit 8 = CHR ''8''" "digit 9 = CHR ''9''"
  by code_simp+

lemma toString_clock: "toString 1700000123456 = ''1700000123456''"
  by (simp add: toString.simps digit_simps)

lemma toUpperCase_i: "toUpperCase ''i'' = ''I''"
  by code_simp

lemma generateOrderCode_half: "generateOrderCode 1700000123456 ''0.i'' = ''PH123456I''"
  by (simp add: generateOrderCode_def sliceLast_def substring_def toString_clock toUpperCase_i)

text \<open>
  Claim C8. Every generated order code is \<open>PH\<close>, six characters from the clock and four
  random alphanumeric characters, twelve in all. The source's own comment promises
  "4 random chars", but \<open>substring(2, 6)\<close> only cuts what \<open>toString(36)\<close> produced: when
  \<open>Math.random()\<close> returns 0.5 its base-36 text is \<open>0.i\<close>, the random segment is the single
  character \<open>I\<close> and the code has nine characters.
\<close>

theorem generateOrderCode_short_random:
  "generateOrderCode 1700000123456 ''0.i'' = ''PH123456I'' \<and>
   length (generateOrderCode 1700000123456 ''0.i'') = 9"
proof (intro conjI)
  show "generateOrderCode 1700000123456 ''0.i'' = ''PH123456I''"
    by (rule generateOrderCode_half)
  show "length (generateOrderCode 1700000123456 ''0.i'') = 9"
    by (simp only: generateOrderCode_half list.size)
qed

section \<open>The webhook handler\<close>

lemma findOrderByReference_example:
  "findOrderByReference (Some ''order_o1_1000'') exampleDb = Some exampleOrder"
  by (simp add: findOrderByReference_def exampleDb_def exampleOrder_def)

text \<open>
  As server.js runs it, the handler throws at its first statement: every request is
  answered by the \<open>catch\<close> block, and the store is never reached.
\<close>

lemma postWebhooksPaystack_throws:
  "postWebhooksPaystack now secret body signature d = ((500, Text ''Webhook error''), d)"
  by (simp add: postWebhooksPaystack_def webhookHandler_def serverCrypto_def)

text \<open>
  What the text of the handler does once \<open>crypto\<close> offers a digest function: the three
  cases of the claim answer \<open>200 OK\<close>, and an answer other than 200 is the 500 of the
  \<open>catch\<close> block, with the store as it was, when no gateway key is configured or a correctly
  signed \<open>charge.success\<close> event carries no \<open>data\<close>.
\<close>

lemma webhookHandler_acknowledges:
  "(secret = Some key \<and> signature \<noteq> Some (hmacHex key body) \<longrightarrow>
      fst (webhookHandler (Some hmacHex) now secret body signature d) = (200, Text ''OK''))
   \<and> (secret = Some key \<and> signature = Some (hmacHex key body) \<and>
        ev_event body = ''charge.success'' \<and> ev_data body = Some dat \<and>
        findOrderByReference (ed_reference dat) d = None \<longrightarrow>
      webhookHandler (Some hmacHex) now secret body signature d = ((200, Text ''OK''), d))
   \<and> (secret = Some key \<and> signature = Some (hmacHex key body) \<and>
        ev_event body = ''charge.success'' \<and> ev_data body = Some dat \<and>
        findOrderByReference (ed_reference dat) d = Some ord \<longrightarrow>
      webhookHandler (Some hmacHex) now secret body signature d =
        ((200, Text ''OK''),
         saveOrder (ord\<lparr>paymentStatus := PaySuccess, status := Paid, updatedAt := now\<rparr>) d))
   \<and> (fst (fst (webhookHandler (Some hmacHex) now secret body signature d)) \<noteq> 200 \<longrightarrow>
        fst (webhookHandler (Some hmacHex) now secret body signature d) = (500, Text ''Webhook error'') \<and>
        snd (webhookHandler (Some hmacHex) now secret body signature d) = d \<and>
        (secret = None \<or>
         signature = Some (hmacHex (the secret) body) \<and> ev_event body = ''charge.success'' \<and>
         ev_data body = None))"
  by (auto simp: webhookHandler_def applyPaymentSucceeded_def split: option.splits)

text \<open>
  Claim C2. The webhook handler answers 200 when the signature does not match, when it
  matches and no order has the reference, and when the transition is applied; only an
  unexpected internal failure gives 500. The handler is written to do so, but server.js
  never requires \<open>crypto\<close>, so \<open>crypto.createHmac\<close> at line 342 throws on every request:
  a request with a signature header that matches nothing, a signed \<open>charge.success\<close> event
  for a reference no order has, and one for the reference of a stored order are all
  answered \<open>500 Webhook error\<close>, and the stored order is not marked paid.
\<close>

theorem webhook_answers_500:
  "postWebhooksPaystack 5000 (Some ''sk_test'') (chargeSuccess ''order_o1_1000'') (Some ''00ff'')
      exampleDb = ((500, Text ''Webhook error''), exampleDb)
   \<and> postWebhooksPaystack 5000 (Some ''sk_test'') (chargeSuccess ''order_zz_7'')
        (Some (exampleHmac ''sk_test'' (chargeSuccess ''order_zz_7''))) exampleDb =
       ((500, Text ''Webhook error''), exampleDb)
   \<and> postWebhooksPaystack 5000 (Some ''sk_test'') (chargeSuccess ''order_o1_1000'')
        (Some (exampleHmac ''sk_test'' (chargeSuccess ''order_o1_1000''))) exampleDb =
       ((500, Text ''Webhook error''), exampleDb)"
  by (simp add: postWebhooksPaystack_def webhookHandler_def serverCrypto_def)

text \<open>
  Claim C5. A webhook request whose signature header is not the digest of its body under
  the shared secret mutates no order, whatever its payload: the store is returned as it
  was. This holds of the handler's text for every binding of \<open>crypto\<close> (with no digest
  function, or with no configured secret, no header can match), and so of the handler as
  server.js runs it.
\<close>

theorem webhook_bad_signature_no_mutation:
  assumes "\<And>hmacHex key. crypto = Some hmacHex \<Longrightarrow> secret = Some key \<Longrightarrow>
             signature \<noteq> Some (hmacHex key body)"
  shows "snd (webhookHandler crypto now secret body signature d) = d
         \<and> snd (postWebhooksPaystack now secret body signature d) = d"
proof
  show "snd (webhookHandler crypto now secret body signature d) = d"
    using assms by (auto simp: webhookHandler_def split: option.splits)
  show "snd (postWebhooksPaystack now secret body signature d) = d"
    by (simp add: postWebhooksPaystack_def webhookHandler_def serverCrypto_def)
qed

theorem webhook_bad_signature_no_mutation_witness:
  "Some ''00ff'' \<noteq> Some (exampleHmac ''sk_test'' (chargeSuccess ''order_o1_1000'')) \<and>
   snd (webhookHandler (Some exampleHmac) 5000 (Some ''sk_test'') (chargeSuccess ''order_o1_1000'')
          (Some ''00ff'') exampleDb) = exampleDb \<and>
   snd (postWebhooksPaystack 5000 (Some ''sk_test'') (chargeSuccess ''order_o1_1000'')
          (Some ''00ff'') exampleDb) = exampleDb"
proof -
  have a: "Some ''00ff'' \<noteq> Some (exampleHmac ''sk_test'' (chargeSuccess ''order_o1_1000''))"
    by (simp add: exampleHmac_def)
  have b: "snd (webhookHandler (Some exampleHmac) 5000 (Some ''sk_test'')
              (chargeSuccess ''order_o1_1000'') (Some ''00ff'') exampleDb) = exampleDb
         \<and> snd (postWebhooksPaystack 5000 (Some ''sk_test'') (chargeSuccess ''order_o1_1000'')
              (Some ''00ff'') exampleDb) = exampleDb"
    by (rule webhook_bad_signature_no_mutation) (use a in simp)
  from a b show ?thesis by (intro conjI) (rule a, rule b [THEN conjunct1], rule b [THEN conjunct2])
qed

section \<open>The verify handler on a status other than success\<close>

text \<open>
  Claim C3 as stated fails: the handler has no branch for a \<open>failed\<close> report. For the
  order awaiting payment in \<open>exampleDb\<close>, a gateway that reports \<open>failed\<close> for its reference
  leaves \<open>paymentStatus\<close> at \<open>pending\<close>; it is not set to \<open>failed\<close>.
\<close>

theorem verify_failed_counterexample:
  "findOrderByReference (Some ''order_o1_1000'') exampleDb = Some exampleOrder \<and>
   status exampleOrder = Pending \<and> paymentStatus exampleOrder = PayPending \<and>
   map paymentStatus
     (orders (snd (postPaymentsVerify 5000 (gatewayReporting ''failed'') (Some ''order_o1_1000'')
        exampleDb)))
     = [PayPending]"
  by (simp add: postPaymentsVerify_def gatewayReporting_def referenceText_def exampleDb_def
      exampleOrder_def findOrderByReference_def)

text \<open>
  Claim C3, amended. When the gateway reports a status other than \<open>success\<close> (\<open>failed\<close>
  among them), the verify handler answers 200 with the reported status, amount and
  reference and returns the store as it was: neither \<open>status\<close> nor \<open>paymentStatus\<close> of any
  order changes.
\<close>

theorem verify_not_success_leaves_store:
  assumes "gateway (referenceText r) = VerifyReplied (Some pd)" and "vd_status pd \<noteq> ''success''"
  shows "postPaymentsVerify now gateway r d =
           ((200, VerifyPayload (vd_status pd) (of_int (vd_amount pd) / 100) (vd_reference pd)), d)"
  using assms by (simp add: postPaymentsVerify_def)

theorem verify_not_success_leaves_store_witness:
  "postPaymentsVerify 5000 (gatewayReporting ''failed'') (Some ''order_o1_1000'') exampleDb =
     ((200, VerifyPayload ''failed'' 20 ''order_o1_1000''), exampleDb)"
proof -
  have g: "gatewayReporting ''failed'' (referenceText (Some ''order_o1_1000'')) =
      VerifyReplied (Some \<lparr>vd_status = ''failed'', vd_amount = 2000, vd_reference = ''order_o1_1000''\<rparr>)"
    by (simp add: gatewayReporting_def referenceText_def)
  have n: "vd_status \<lparr>vd_status = ''failed'', vd_amount = 2000, vd_reference = ''order_o1_1000''\<rparr>
      \<noteq> ''success''"
    by simp
  show ?thesis
    using verify_not_success_leaves_store
      [where gateway = "gatewayReporting ''failed''" and r = "Some ''order_o1_1000''"
        and now = 5000 and d = exampleDb, OF g n]
    by simp
qed

section \<open>POST /api/orders/verify\<close>

lemma isAscii_examples:
  "list_all isAscii ''A@x.com''"
  "list_all isAscii ''a@x.com''"
  "list_all isAscii ''b@x.com''"
  "list_all isAscii ''Nobody@x.com''"
  by code_simp+

lemma lowerChar_examples:
  "map lowerChar ''A@x.com'' = ''a@x.com''"
  "map lowerChar ''a@x.com'' = ''a@x.com''"
  "map lowerChar ''b@x.com'' = ''b@x.com''"
  "map lowerChar ''Nobody@x.com'' = ''nobody@x.com''"
  by code_simp+

lemma toLowerCase_examples:
  "toLowerCase ul ''A@x.com'' = ''a@x.com''"
  "toLowerCase ul ''a@x.com'' = ''a@x.com''"
  "toLowerCase ul ''b@x.com'' = ''b@x.com''"
  "toLowerCase ul ''Nobody@x.com'' = ''nobody@x.com''"
  by (simp_all only: toLowerCase_def isAscii_examples lowerChar_examples if_True)

lemma findOrderByCode_example:
  "findOrderByCode ''PH1234564FZY'' exampleDb = Some exampleOrder"
  by (simp add: findOrderByCode_def exampleDb_def exampleOrder_def)

lemma findOrderByCode_example_none:
  "findOrderByCode ''PH000000ZZZZ'' exampleDb = None"
  by (simp add: findOrderByCode_def exampleDb_def exampleOrder_def)

lemma findCustomerById_example:
  "findCustomerById (customer exampleOrder) exampleDb = Some exampleCustomer"
  by (simp add: findCustomerById_def exampleDb_def exampleOrder_def exampleCustomer_def)

lemma email_example: "email exampleCustomer = ''a@x.com''"
  by (simp add: exampleCustomer_def)

text \<open>
  Claim C7. With an email and an order code supplied, the ownership check answers 404 when
  no order has the code, 403 (and not 404) when the order exists and its customer's email
  differs from the supplied one ignoring case, and succeeds with the order when the two
  are equal ignoring case. The two emails are compared as the handler compares them,
  after \<open>toLowerCase\<close> on both, whatever the runtime's mapping \<open>ul\<close> of non-ASCII strings is.
\<close>

theorem verifyOwnership_outcomes:
  assumes "em \<noteq> ''''" and "code \<noteq> ''''"
  shows
    "(findOrderByCode code d = None \<longrightarrow>
        postOrdersVerify ul em code d = (404, ErrorPayload (Message ''Order not found'')))
     \<and> (findOrderByCode code d = Some ord \<and> findCustomerById (customer ord) d = Some c \<and>
          toLowerCase ul (email c) \<noteq> toLowerCase ul em \<longrightarrow>
        postOrdersVerify ul em code d =
          (403, ErrorPayload (Message ''This order does not belong to the provided email address'')))
     \<and> (findOrderByCode code d = Some ord \<and> findCustomerById (customer ord) d = Some c \<and>
          toLowerCase ul (email c) = toLowerCase ul em \<longrightarrow>
        postOrdersVerify ul em code d = (200, OrderVerifiedPayload ord c))"
  using assms by (simp add: postOrdersVerify_def)

theorem verifyOwnership_outcomes_witness:
  "\<forall>ul. (postOrdersVerify ul ''A@x.com'' ''PH000000ZZZZ'' exampleDb =
     (404, ErrorPayload (Message ''Order not found''))
   \<and> postOrdersVerify ul ''b@x.com'' ''PH1234564FZY'' exampleDb =
     (403, ErrorPayload (Message ''This order does not belong to the provided email address''))
   \<and> postOrdersVerify ul ''A@x.com'' ''PH1234564FZY'' exampleDb =
     (200, OrderVerifiedPayload exampleOrder exampleCustomer))"
  (is "\<forall>ul. ?W ul")
proof (rule allI)
  fix ul
  have e1: "''A@x.com'' \<noteq> ''''" and e2: "''b@x.com'' \<noteq> ''''"
    and k1: "''PH000000ZZZZ'' \<noteq> ''''" and k2: "''PH1234564FZY'' \<noteq> ''''"
    by simp_all
  have c1: "postOrdersVerify ul ''A@x.com'' ''PH000000ZZZZ'' exampleDb =
     (404, ErrorPayload (Message ''Order not found''))"
    by (rule verifyOwnership_outcomes [OF e1 k1, THEN conjunct1, THEN mp])
      (rule findOrderByCode_example_none)
  have c2: "postOrdersVerify ul ''b@x.com'' ''PH1234564FZY'' exampleDb =
     (403, ErrorPayload (Message ''This order does not belong to the provided email address''))"
    by (rule verifyOwnership_outcomes [OF e2 k2, where ord = exampleOrder and c = exampleCustomer,
          THEN conjunct2, THEN conjunct1, THEN mp])
      (simp add: findOrderByCode_example findCustomerById_example email_example
        toLowerCase_examples)
  have c3: "postOrdersVerify ul ''A@x.com'' ''PH1234564FZY'' exampleDb =
     (200, OrderVerifiedPayload exampleOrder exampleCustomer)"
    by (rule verifyOwnership_outcomes [OF e1 k2, where ord = exampleOrder and c = exampleCustomer,
          THEN conjunct2, THEN conjunct2, THEN mp])
      (simp add: findOrderByCode_example findCustomerById_example email_example
        toLowerCase_examples)
  show "?W ul"
    by (intro conjI) (rule c1 c2 c3)+
qed

lemma map_fst_populate: "map fst (map (populate d) xs) = xs"
  by (induction xs) (simp_all add: populate_def)

lemma mset_sortNewestFirst: "mset (sortNewestFirst xs) = mset xs"
  by (simp add: sortNewestFirst_def)

lemma sorted_sortNewestFirst: "sorted (rev (map createdAt (sortNewestFirst xs)))"
  by (simp add: sortNewestFirst_def rev_map [symmetric])

text \<open>
  Claim C9. With an email and no order code, the handler does not answer 400: it looks
  the customer up by the lowercased email, answers 404 when there is none, and otherwise
  answers 200 with that customer and all the orders that refer to the customer, each with
  its customer document, newest first. The lowercased email is \<open>toLowerCase\<close> of the
  email, whatever the runtime's mapping \<open>ul\<close> of non-ASCII strings is.
\<close>

theorem verify_without_code_lists_orders:
  assumes "em \<noteq> ''''"
  shows
    "fst (postOrdersVerify ul em '''' d) \<noteq> 400
     \<and> (findCustomerByEmail (toLowerCase ul em) d = None \<longrightarrow>
          postOrdersVerify ul em '''' d =
            (404, ErrorPayload (Message ''No orders found for this email address'')))
     \<and> (findCustomerByEmail (toLowerCase ul em) d = Some c \<longrightarrow>
          (\<exists>os. postOrdersVerify ul em '''' d = (200, OrdersPayload os c)
             \<and> mset (map fst os) = mset (filter (\<lambda>x. customer x = cust_id c) (orders d))
             \<and> sorted (rev (map createdAt (map fst os)))
             \<and> map snd os = map (\<lambda>x. findCustomerById (customer x) d) (map fst os)))"
proof (intro conjI impI)
  show "fst (postOrdersVerify ul em '''' d) \<noteq> 400"
    using assms by (simp add: postOrdersVerify_def split: option.splits)
next
  assume "findCustomerByEmail (toLowerCase ul em) d = None"
  then show "postOrdersVerify ul em '''' d =
      (404, ErrorPayload (Message ''No orders found for this email address''))"
    using assms by (simp add: postOrdersVerify_def)
next
  assume found: "findCustomerByEmail (toLowerCase ul em) d = Some c"
  let ?xs = "sortNewestFirst (findOrdersByCustomer (cust_id c) d)"
  let ?os = "map (populate d) ?xs"
  have "postOrdersVerify ul em '''' d = (200, OrdersPayload ?os c)"
    using assms found by (simp add: postOrdersVerify_def)
  moreover have "mset (map fst ?os) = mset (filter (\<lambda>x. customer x = cust_id c) (orders d))"
    by (simp only: map_fst_populate mset_sortNewestFirst findOrdersByCustomer_def)
  moreover have "sorted (rev (map createdAt (map fst ?os)))"
    by (simp only: map_fst_populate sorted_sortNewestFirst)
  moreover have "map snd ?os = map (\<lambda>x. findCustomerById (customer x) d) (map fst ?os)"
    by (simp add: populate_def comp_def)
  ultimately show "\<exists>os. postOrdersVerify ul em '''' d = (200, OrdersPayload os c)
             \<and> mset (map fst os) = mset (filter (\<lambda>x. customer x = cust_id c) (orders d))
             \<and> sorted (rev (map createdAt (map fst os)))
             \<and> map snd os = map (\<lambda>x. findCustomerById (customer x) d) (map fst os)"
    by (intro exI [of _ ?os] conjI)
qed

lemma findCustomerByEmail_example:
  "findCustomerByEmail ''a@x.com'' exampleDb = Some exampleCustomer"
  "findCustomerByEmail ''nobody@x.com'' exampleDb = None"
  by (simp_all add: findCustomerByEmail_def exampleDb_def exampleCustomer_def)

lemma orders_of_example:
  "filter (\<lambda>x. customer x = cust_id exampleCustomer) (orders exampleDb) = [exampleOrder]"
  by (simp add: exampleDb_def exampleCustomer_def exampleOrder_def)

theorem verify_without_code_lists_orders_witness:
  "\<forall>ul. (fst (postOrdersVerify ul ''A@x.com'' '''' exampleDb) \<noteq> 400
   \<and> postOrdersVerify ul ''Nobody@x.com'' '''' exampleDb =
       (404, ErrorPayload (Message ''No orders found for this email address''))
   \<and> (\<exists>os. postOrdersVerify ul ''A@x.com'' '''' exampleDb = (200, OrdersPayload os exampleCustomer)
         \<and> mset (map fst os) = {#exampleOrder#}))"
  (is "\<forall>ul. ?W ul")
proof (rule allI)
  fix ul
  have e1: "''A@x.com'' \<noteq> ''''" and e2: "''Nobody@x.com'' \<noteq> ''''"
    by simp_all
  note t1 = verify_without_code_lists_orders [OF e1, where d = exampleDb and c = exampleCustomer]
  note t2 = verify_without_code_lists_orders [OF e2, where d = exampleDb]
  have c1: "fst (postOrdersVerify ul ''A@x.com'' '''' exampleDb) \<noteq> 400"
    by (rule t1 [THEN conjunct1])
  have c2: "postOrdersVerify ul ''Nobody@x.com'' '''' exampleDb =
       (404, ErrorPayload (Message ''No orders found for this email address''))"
    by (rule t2 [THEN conjunct2, THEN conjunct1, THEN mp])
      (simp add: toLowerCase_examples findCustomerByEmail_example)
  have "\<exists>os. postOrdersVerify ul ''A@x.com'' '''' exampleDb = (200, OrdersPayload os exampleCustomer)
         \<and> mset (map fst os) = mset (filter (\<lambda>x. customer x = cust_id exampleCustomer) (orders exampleDb))
         \<and> sorted (rev (map createdAt (map fst os)))
         \<and> map snd os = map (\<lambda>x. findCustomerById (customer x) exampleDb) (map fst os)"
    by (rule t1 [THEN conjunct2, THEN conjunct2, THEN mp])
      (simp add: toLowerCase_examples findCustomerByEmail_example)
  then obtain os where
    "postOrdersVerify ul ''A@x.com'' '''' exampleDb = (200, OrdersPayload os exampleCustomer)"
    and "mset (map fst os) = mset (filter (\<lambda>x. customer x = cust_id exampleCustomer) (orders exampleDb))"
    by (elim exE conjE)
  then have c3: "\<exists>os. postOrdersVerify ul ''A@x.com'' '''' exampleDb = (200, OrdersPayload os exampleCustomer)
         \<and> mset (map fst os) = {#exampleOrder#}"
    by (intro exI [of _ os]) (simp only: orders_of_example, simp)
  show "?W ul"
    by (intro conjI) (rule c1 c2 c3)+
qed

section \<open>POST /api/payments/initialize\<close>

lemma find_Some_holds: "find P xs = Some x \<Longrightarrow> P x \<and> x \<in> set xs"
  by (induction xs) (auto split: if_splits)

lemma distinct_ids_same:
  assumes "distinct (map order_id xs)" and "x \<in> set xs" and "y \<in> set xs"
    and "order_id x = order_id y"
  shows "x = y"
  using assms by (meson distinct_map inj_onD)

lemma saveOrder_distinct:
  assumes "distinct (map order_id (orders d))" and "ord \<in> set (orders d)"
    and "order_id ord' = order_id ord"
  shows "saveOrder ord' d =
           d\<lparr>orders := map (\<lambda>x. if x = ord then ord' else x) (orders d)\<rparr>"
proof -
  have "map (\<lambda>x. if order_id x = order_id ord' then ord' else x) (orders d) =
        map (\<lambda>x. if x = ord then ord' else x) (orders d)"
  proof (rule map_cong [OF refl])
    fix x assume "x \<in> set (orders d)"
    then show "(if order_id x = order_id ord' then ord' else x) = (if x = ord then ord' else x)"
      using distinct_ids_same [OF assms(1) _ assms(2), of x] assms(3) by auto
  qed
  then show ?thesis by (simp add: saveOrder_def)
qed

lemma pd_reference_paymentDataFor:
  "pd_reference (paymentDataFor now frontendUrl em ord c) = paymentReferenceFor (order_id ord) now"
  by (simp add: paymentDataFor_def)

text \<open>
  Claim C10. Every call of the initialize handler that answers 200 has found the order,
  and leaves the store with that order's \<open>paymentReference\<close> overwritten by the reference
  generated in this call (\<open>order_\<close>, the order's id, \<open>_\<close> and the clock), whatever it was
  before; every other field of the order, every other order and the customers are as
  they were. The \<open>_id\<close>s of the stored orders are distinct, as the store guarantees.
\<close>

theorem initialize_overwrites_reference:
  assumes "distinct (map order_id (orders d))"
    and "fst (fst (postPaymentsInitialize now frontendUrl gateway orderId em d)) = 200"
  shows "\<exists>ord url access.
           findOrderById orderId d = Some ord
           \<and> postPaymentsInitialize now frontendUrl gateway orderId em d =
               ((200, InitPayload url access (paymentReferenceFor orderId now)),
                d\<lparr>orders := map (\<lambda>x. if x = ord
                                       then x\<lparr>paymentReference := Some (paymentReferenceFor orderId now)\<rparr>
                                       else x) (orders d)\<rparr>)"
proof -
  from assms(2) obtain ord where f: "findOrderById orderId d = Some ord"
    by (cases "findOrderById orderId d") (simp_all add: postPaymentsInitialize_def)
  then have oid: "order_id ord = orderId" and mem: "ord \<in> set (orders d)"
    using find_Some_holds [of "\<lambda>x. order_id x = orderId" "orders d" ord]
    by (simp_all add: findOrderById_def)
  from assms(2) f obtain c where c: "findCustomerById (customer ord) d = Some c"
    by (cases "findCustomerById (customer ord) d") (simp_all add: postPaymentsInitialize_def)
  let ?ord' = "ord\<lparr>paymentReference := Some (paymentReferenceFor orderId now)\<rparr>"
  have sv: "saveOrder ?ord' d = d\<lparr>orders := map (\<lambda>x. if x = ord then ?ord' else x) (orders d)\<rparr>"
    by (rule saveOrder_distinct [OF assms(1) mem]) simp
  have eq: "map (\<lambda>x. if x = ord then ?ord' else x) (orders d) =
        map (\<lambda>x. if x = ord then x\<lparr>paymentReference := Some (paymentReferenceFor orderId now)\<rparr>
                  else x) (orders d)"
    by (rule map_cong [OF refl]) simp
  from assms(2) f c obtain reply where
    g: "gateway (paymentDataFor now frontendUrl em ord c) = InitAccepted reply"
    by (cases "gateway (paymentDataFor now frontendUrl em ord c)")
      (simp_all add: postPaymentsInitialize_def)
  from assms(2) f c g obtain url access where r: "reply = Some (url, access)"
    by (cases reply) (auto simp add: postPaymentsInitialize_def)
  have "postPaymentsInitialize now frontendUrl gateway orderId em d =
       ((200, InitPayload url access (paymentReferenceFor orderId now)), saveOrder ?ord' d)"
    by (simp add: postPaymentsInitialize_def f c g r oid pd_reference_paymentDataFor)
  then have "postPaymentsInitialize now frontendUrl gateway orderId em d =
       ((200, InitPayload url access (paymentReferenceFor orderId now)),
        d\<lparr>orders := map (\<lambda>x. if x = ord
                               then x\<lparr>paymentReference := Some (paymentReferenceFor orderId now)\<rparr>
                               else x) (orders d)\<rparr>)"
    by (simp only: sv eq)
  with f show ?thesis by (intro exI conjI)
qed

lemma paymentReferenceFor_example: "paymentReferenceFor ''o1'' 5000 = ''order_o1_5000''"
  by (simp add: paymentReferenceFor_def toString.simps digit_simps)

lemma findOrderById_example: "findOrderById ''o1'' exampleDb = Some exampleOrder"
  by (simp add: findOrderById_def exampleDb_def exampleOrder_def)

lemma initialize_example_200:
  "fst (fst (postPaymentsInitialize 5000 '''' gatewayAccepting ''o1'' '''' exampleDb)) = 200"
  by (simp add: postPaymentsInitialize_def findOrderById_example findCustomerById_example
      gatewayAccepting_def)

lemma distinct_example: "distinct (map order_id (orders exampleDb))"
  by (simp add: exampleDb_def)

theorem initialize_overwrites_reference_witness:
  "paymentReference exampleOrder = Some ''order_o1_1000''
   \<and> fst (postPaymentsInitialize 5000 '''' gatewayAccepting ''o1'' '''' exampleDb) =
       (200, InitPayload ''https://checkout.paystack.com/abc'' ''abc'' ''order_o1_5000'')
   \<and> snd (postPaymentsInitialize 5000 '''' gatewayAccepting ''o1'' '''' exampleDb) =
       exampleDb\<lparr>orders := [exampleOrder\<lparr>paymentReference := Some ''order_o1_5000''\<rparr>]\<rparr>"
proof -
  from initialize_overwrites_reference [OF distinct_example initialize_example_200]
  obtain ord url access where
    f: "findOrderById ''o1'' exampleDb = Some ord" and
    r: "postPaymentsInitialize 5000 '''' gatewayAccepting ''o1'' '''' exampleDb =
         ((200, InitPayload url access (paymentReferenceFor ''o1'' 5000)),
          exampleDb\<lparr>orders := map (\<lambda>x. if x = ord
                 then x\<lparr>paymentReference := Some (paymentReferenceFor ''o1'' 5000)\<rparr>
                 else x) (orders exampleDb)\<rparr>)"
    by (elim exE conjE)
  from f have o: "ord = exampleOrder" by (simp add: findOrderById_example)
  have os: "orders exampleDb = [exampleOrder]" by (simp add: exampleDb_def)
  have c1: "paymentReference exampleOrder = Some ''order_o1_1000''"
    by (simp add: exampleOrder_def)
  have c3: "snd (postPaymentsInitialize 5000 '''' gatewayAccepting ''o1'' '''' exampleDb) =
       exampleDb\<lparr>orders := [exampleOrder\<lparr>paymentReference := Some ''order_o1_5000''\<rparr>]\<rparr>"
    by (simp add: r o os paymentReferenceFor_example)
  have ev: "fst (postPaymentsInitialize 5000 '''' gatewayAccepting ''o1'' '''' exampleDb) =
       (200, InitPayload ''https://checkout.paystack.com/abc'' ''abc''
          (pd_reference (paymentDataFor 5000 '''' '''' exampleOrder exampleCustomer)))"
    by (simp add: postPaymentsInitialize_def findOrderById_example findCustomerById_example
      gatewayAccepting_def)
  have oid: "order_id exampleOrder = ''o1''"
    by (simp add: exampleOrder_def)
  have c2: "fst (postPaymentsInitialize 5000 '''' gatewayAccepting ''o1'' '''' exampleDb) =
       (200, InitPayload ''https://checkout.paystack.com/abc'' ''abc'' ''order_o1_5000'')"
    by (simp only: ev pd_reference_paymentDataFor oid paymentReferenceFor_example)
  show ?thesis
    by (intro conjI) (rule c1 c2 c3)+
qed

section \<open>Customer resolution\<close>

text \<open>
  What does hold: a customer stored under exactly the supplied email is returned as stored
  and nothing is created, so resolving the same profile twice gives the same customer.
\<close>

lemma find_append_None: "find P xs = None \<Longrightarrow> find P (xs @ ys) = find P ys"
  by (induction xs) (auto split: if_splits)

lemma createOrFindCustomer_existing:
  assumes "findCustomerByEmail (cd_email p) d = Some c"
  shows "createOrFindCustomer newId now p d = Inr (c, d)"
  using assms by (simp add: createOrFindCustomer_def)

lemma createOrFindCustomer_twice:
  assumes "createOrFindCustomer newId now p d = Inr (c, d1)"
  shows "createOrFindCustomer newId' now' p d1 = Inr (c, d1)"
proof (cases "findCustomerByEmail (cd_email p) d")
  case (Some c0)
  with assms show ?thesis by (simp add: createOrFindCustomer_def)
next
  case None
  with assms have d1: "d1 = d\<lparr>customers := customers d @ [newCustomer newId now p]\<rparr>"
    and c: "c = newCustomer newId now p"
    by (auto simp: createOrFindCustomer_def saveNewCustomer_def split: if_splits sum.splits)
  from None have "findCustomerByEmail (cd_email p) d1 = Some c"
    by (simp add: d1 c findCustomerByEmail_def find_append_None newCustomer_def)
  then show ?thesis by (rule createOrFindCustomer_existing)
qed

text \<open>
  Claim C6. Customer resolution is keyed by the email ignoring case: a customer whose
  email equals the supplied one ignoring case is returned unchanged and none is created.
  The handlers look the email up as it is written, \<open>Customer.findOne({ email })\<close>, while
  the ownership check of the same file lowercases both sides and the order listing looks up
  the lowercased email. With \<open>a@x.com\<close> stored, a request for \<open>A@x.com\<close> is answered 201 with
  a second customer, and the store holds both.
\<close>

theorem postCustomers_case_sensitive:
  "(\<forall>ul. toLowerCase ul (email exampleCustomer) = toLowerCase ul ''A@x.com'')
   \<and> postCustomers ''c2'' 5000
        \<lparr>cd_email = ''A@x.com'', cd_firstName = ''A'', cd_lastName = ''B'', cd_phone = ''123''\<rparr>
        exampleDb =
       ((201, CustomerPayload
                \<lparr>cust_id = ''c2'', email = ''A@x.com'', firstName = ''A'', lastName = ''B'',
                 phone = ''123'', cust_createdAt = 5000\<rparr>),
        \<lparr>customers =
           [exampleCustomer,
            \<lparr>cust_id = ''c2'', email = ''A@x.com'', firstName = ''A'', lastName = ''B'',
             phone = ''123'', cust_createdAt = 5000\<rparr>],
         orders = [exampleOrder]\<rparr>)"
proof
  show "\<forall>ul. toLowerCase ul (email exampleCustomer) = toLowerCase ul ''A@x.com''"
    by (simp add: email_example toLowerCase_examples)
  show "postCustomers ''c2'' 5000
        \<lparr>cd_email = ''A@x.com'', cd_firstName = ''A'', cd_lastName = ''B'', cd_phone = ''123''\<rparr>
        exampleDb =
       ((201, CustomerPayload
                \<lparr>cust_id = ''c2'', email = ''A@x.com'', firstName = ''A'', lastName = ''B'',
                 phone = ''123'', cust_createdAt = 5000\<rparr>),
        \<lparr>customers =
           [exampleCustomer,
            \<lparr>cust_id = ''c2'', email = ''A@x.com'', firstName = ''A'', lastName = ''B'',
             phone = ''123'', cust_createdAt = 5000\<rparr>],
         orders = [exampleOrder]\<rparr>)"
    by (simp add: postCustomers_def createOrFindCustomer_def saveNewCustomer_def newCustomer_def
        findCustomerByEmail_def findCustomerById_def exampleDb_def exampleCustomer_def)
qed

section \<open>Order-code allocation\<close>

lemma allocateOrderCode_free:
  "findOrderByCode (candidate env i) d = None \<Longrightarrow>
     allocateOrderCode env d i = Some (candidate env i, Suc i)"
  by (subst allocateOrderCode.simps) simp

lemma allocateOrderCode_taken:
  "findOrderByCode (candidate env i) d \<noteq> None \<Longrightarrow>
     allocateOrderCode env d i = allocateOrderCode env d (Suc i)"
  by (subst allocateOrderCode.simps) (auto split: option.splits)

lemma allocateOrderCode_first_free_from:
  assumes "\<And>j. i \<le> j \<Longrightarrow> j < k \<Longrightarrow> findOrderByCode (candidate env j) d \<noteq> None"
    and "i \<le> k" and "findOrderByCode (candidate env k) d = None"
  shows "allocateOrderCode env d i = Some (candidate env k, Suc k)"
  using assms
proof (induction "k - i" arbitrary: i)
  case 0
  then have "i = k" by simp
  with 0 show ?case by (simp add: allocateOrderCode_free)
next
  case (Suc n)
  then have lt: "i < k" by simp
  then have "findOrderByCode (candidate env i) d \<noteq> None" using Suc.prems(1) by simp
  then have "allocateOrderCode env d i = allocateOrderCode env d (Suc i)"
    by (rule allocateOrderCode_taken)
  also have "\<dots> = Some (candidate env k, Suc k)"
  proof (rule Suc.hyps(1))
    show "n = k - Suc i" using Suc.hyps(2) by simp
    show "Suc i \<le> k" using lt by simp
    show "findOrderByCode (candidate env k) d = None" by (rule Suc.prems(3))
    show "findOrderByCode (candidate env j) d \<noteq> None" if "Suc i \<le> j" "j < k" for j
      using that Suc.prems(1) [of j] by simp
  qed
  finally show ?case .
qed

lemma allocateOrderCode_Some_free:
  assumes "allocateOrderCode env d i = Some r"
  shows "\<exists>j\<ge>i. findOrderByCode (candidate env j) d = None"
proof (rule allocateOrderCode.raw_induct
    [where P = "\<lambda>env d i r. \<exists>j\<ge>i. findOrderByCode (candidate env j) d = None"])
  show "allocateOrderCode env d i = Some r" by (rule assms)
next
  fix alloc :: "(nat \<Rightarrow> nat \<times> string) \<Rightarrow> db \<Rightarrow> nat \<Rightarrow> (string \<times> nat) option"
  fix env d i r
  assume IH: "\<And>env d i r. alloc env d i = Some r \<Longrightarrow>
                 \<exists>j\<ge>i. findOrderByCode (candidate env j) d = None"
    and step: "(case findOrderByCode (candidate env i) d of
                  None \<Rightarrow> Some (candidate env i, Suc i)
                | Some existingOrder \<Rightarrow> alloc env d (Suc i)) = Some r"
  show "\<exists>j\<ge>i. findOrderByCode (candidate env j) d = None"
  proof (cases "findOrderByCode (candidate env i) d")
    case None
    then show ?thesis by (intro exI [of _ i]) simp
  next
    case (Some x)
    with step have "alloc env d (Suc i) = Some r" by simp
    then obtain j where "Suc i \<le> j" "findOrderByCode (candidate env j) d = None"
      using IH by blast
    then show ?thesis by (intro exI [of _ j]) simp
  qed
qed

lemma allocateOrderCode_never_free:
  assumes "\<And>j. findOrderByCode (candidate env j) d \<noteq> None"
  shows "allocateOrderCode env d i = None"
proof (cases "allocateOrderCode env d i")
  case None
  then show ?thesis .
next
  case (Some r)
  then obtain j where "findOrderByCode (candidate env j) d = None"
    using allocateOrderCode_Some_free by blast
  with assms [of j] show ?thesis by simp
qed

lemma toUpperCase_examples:
  "toUpperCase ''4fzy'' = ''4FZY''" "toUpperCase ''k3x9'' = ''K3X9''"
  by code_simp+

lemma candidate_stuckEnv: "candidate stuckEnv j = ''PH1234564FZY''"
  by (simp add: candidate_def stuckEnv_def generateOrderCode_def sliceLast_def substring_def
      toString_clock toUpperCase_examples)

lemma candidate_collidingEnv:
  "candidate collidingEnv j = (if j < 6 then ''PH1234564FZY'' else ''PH123456K3X9'')"
  by (simp add: candidate_def collidingEnv_def generateOrderCode_def sliceLast_def substring_def
      toString_clock toUpperCase_examples)

lemma findOrderByCode_other: "findOrderByCode ''PH123456K3X9'' exampleDb = None"
  by (simp add: findOrderByCode_def exampleDb_def exampleOrder_def)

lemma stuckEnv_never_free: "findOrderByCode (candidate stuckEnv j) exampleDb \<noteq> None"
  by (simp add: candidate_stuckEnv findOrderByCode_example)

lemma collidingEnv_taken: "j < 6 \<Longrightarrow> findOrderByCode (candidate collidingEnv j) exampleDb \<noteq> None"
  by (simp add: candidate_collidingEnv findOrderByCode_example)

lemma collidingEnv_free: "findOrderByCode (candidate collidingEnv 6) exampleDb = None"
  by (simp add: candidate_collidingEnv findOrderByCode_other)

text \<open>
  Claim C1 as stated fails: the loop has no retry count and no exhaustion error. When the
  generator keeps proposing a code that an order already has, the loop never ends and the
  request never gets a response; and after six collisions the loop makes a seventh
  proposal and returns it, with no error.
\<close>

theorem allocateOrderCode_counterexample:
  "allocateOrderCode stuckEnv exampleDb 0 = None
   \<and> postOrders ''c9'' ''o9'' 5000 stuckEnv
        \<lparr>body_customerData =
           Some \<lparr>cd_email = ''a@x.com'', cd_firstName = ''A'', cd_lastName = ''B'', cd_phone = ''123''\<rparr>,
         body_items = [pizza], body_type = ''food'', body_totalAmount = Some 20\<rparr>
        exampleDb = None
   \<and> allocateOrderCode collidingEnv exampleDb 0 = Some (''PH123456K3X9'', 7)"
proof (intro conjI)
  show stuck: "allocateOrderCode stuckEnv exampleDb 0 = None"
    by (rule allocateOrderCode_never_free) (rule stuckEnv_never_free)
  show "postOrders ''c9'' ''o9'' 5000 stuckEnv
        \<lparr>body_customerData =
           Some \<lparr>cd_email = ''a@x.com'', cd_firstName = ''A'', cd_lastName = ''B'', cd_phone = ''123''\<rparr>,
         body_items = [pizza], body_type = ''food'', body_totalAmount = Some 20\<rparr>
        exampleDb = None"
    by (simp add: postOrders_def createOrFindCustomer_def findCustomerByEmail_example stuck)
  have "allocateOrderCode collidingEnv exampleDb 0 = Some (candidate collidingEnv 6, Suc 6)"
    by (rule allocateOrderCode_first_free_from) (simp_all add: collidingEnv_taken collidingEnv_free)
  then show "allocateOrderCode collidingEnv exampleDb 0 = Some (''PH123456K3X9'', 7)"
    by (simp add: candidate_collidingEnv)
qed

text \<open>
  Claim C1, amended. Each pass of the loop calls the generator for a new candidate and
  looks it up in the store; the loop ends at the first candidate that no order has, after
  as many generator calls as it took, whatever their number. There is no maximum retry
  count and no \<open>CodeAllocationExhausted\<close> error: when every candidate is taken the loop
  does not end.
\<close>

theorem allocateOrderCode_unbounded:
  "((\<forall>j<k. findOrderByCode (candidate env j) d \<noteq> None) \<and>
      findOrderByCode (candidate env k) d = None \<longrightarrow>
        allocateOrderCode env d 0 = Some (candidate env k, Suc k))
   \<and> ((\<forall>j. findOrderByCode (candidate env j) d \<noteq> None) \<longrightarrow>
        allocateOrderCode env d 0 = None)"
proof (intro conjI impI)
  assume "(\<forall>j<k. findOrderByCode (candidate env j) d \<noteq> None) \<and>
      findOrderByCode (candidate env k) d = None"
  then show "allocateOrderCode env d 0 = Some (candidate env k, Suc k)"
    by (intro allocateOrderCode_first_free_from) simp_all
next
  assume "\<forall>j. findOrderByCode (candidate env j) d \<noteq> None"
  then show "allocateOrderCode env d 0 = None"
    by (intro allocateOrderCode_never_free) simp
qed

theorem allocateOrderCode_unbounded_witness:
  "allocateOrderCode collidingEnv exampleDb 0 = Some (candidate collidingEnv 6, Suc 6)
   \<and> allocateOrderCode stuckEnv exampleDb 0 = None"
proof
  show "allocateOrderCode collidingEnv exampleDb 0 = Some (candidate collidingEnv 6, Suc 6)"
    by (rule allocateOrderCode_unbounded [THEN conjunct1, THEN mp])
      (simp add: collidingEnv_taken collidingEnv_free)
  show "allocateOrderCode stuckEnv exampleDb 0 = None"
    by (rule allocateOrderCode_unbounded [where k = 0, THEN conjunct2, THEN mp])
      (simp add: stuckEnv_never_free)
qed

section \<open>The success transition, applied again\<close>

lemma find_map_save:
  assumes "find P xs = Some ord" and "P ord'"
  shows "find P (map (\<lambda>x. if order_id x = order_id ord then ord' else x) xs) = Some ord'"
  using assms by (induction xs) (auto split: if_splits)

lemma saveOrder_saveOrder:
  assumes "order_id ord2 = order_id ord1"
  shows "saveOrder ord2 (saveOrder ord1 d) = saveOrder ord2 d"
proof -
  have "map (\<lambda>x. if order_id x = order_id ord2 then ord2 else x)
          (map (\<lambda>x. if order_id x = order_id ord1 then ord1 else x) (orders d)) =
        map (\<lambda>x. if order_id x = order_id ord2 then ord2 else x) (orders d)"
    using assms by (induction "orders d") auto
  then show ?thesis by (simp add: saveOrder_def)
qed

lemma applyPaymentSucceeded_found:
  assumes "findOrderByReference r d = Some ord"
  shows "applyPaymentSucceeded t r d =
           saveOrder (ord\<lparr>paymentStatus := PaySuccess, status := Paid, updatedAt := t\<rparr>) d"
    and "findOrderByReference r (applyPaymentSucceeded t r d) =
           Some (ord\<lparr>paymentStatus := PaySuccess, status := Paid, updatedAt := t\<rparr>)"
proof -
  let ?ord' = "ord\<lparr>paymentStatus := PaySuccess, status := Paid, updatedAt := t\<rparr>"
  show a: "applyPaymentSucceeded t r d = saveOrder ?ord' d"
    using assms by (simp add: applyPaymentSucceeded_def)
  from assms have "paymentReference ord = r"
    using find_Some_holds [of "\<lambda>x. paymentReference x = r" "orders d" ord]
    by (simp add: findOrderByReference_def)
  then have "paymentReference ?ord' = r" by simp
  with assms have "find (\<lambda>x. paymentReference x = r)
      (map (\<lambda>x. if order_id x = order_id ord then ?ord' else x) (orders d)) = Some ?ord'"
    unfolding findOrderByReference_def by (intro find_map_save)
  then show "findOrderByReference r (applyPaymentSucceeded t r d) = Some ?ord'"
    by (simp add: a findOrderByReference_def saveOrder_def)
qed

lemma applyPaymentSucceeded_twice:
  "applyPaymentSucceeded t2 r (applyPaymentSucceeded t1 r d) = applyPaymentSucceeded t2 r d"
proof (cases "findOrderByReference r d")
  case None
  then show ?thesis by (simp add: applyPaymentSucceeded_def)
next
  case (Some ord)
  let ?o1 = "ord\<lparr>paymentStatus := PaySuccess, status := Paid, updatedAt := t1\<rparr>"
  let ?o2 = "ord\<lparr>paymentStatus := PaySuccess, status := Paid, updatedAt := t2\<rparr>"
  have d1: "applyPaymentSucceeded t1 r d = saveOrder ?o1 d"
    and f1: "findOrderByReference r (applyPaymentSucceeded t1 r d) = Some ?o1"
    using applyPaymentSucceeded_found [OF Some, of t1] by simp_all
  have "applyPaymentSucceeded t2 r (applyPaymentSucceeded t1 r d) =
        saveOrder (?o1\<lparr>paymentStatus := PaySuccess, status := Paid, updatedAt := t2\<rparr>)
          (applyPaymentSucceeded t1 r d)"
    by (rule applyPaymentSucceeded_found(1) [OF f1])
  also have "\<dots> = saveOrder ?o2 (saveOrder ?o1 d)"
    by (simp add: d1)
  also have "\<dots> = saveOrder ?o2 d"
    by (rule saveOrder_saveOrder) simp
  also have "\<dots> = applyPaymentSucceeded t2 r d"
    by (rule applyPaymentSucceeded_found(1) [OF Some, symmetric])
  finally show ?thesis .
qed

lemma eraseUpdatedAt_applyPaymentSucceeded:
  "eraseUpdatedAt (applyPaymentSucceeded t r d) = eraseUpdatedAt (applyPaymentSucceeded t' r d)"
proof (cases "findOrderByReference r d")
  case None
  then show ?thesis by (simp add: applyPaymentSucceeded_def)
next
  case (Some ord)
  show ?thesis
    by (simp add: applyPaymentSucceeded_found(1) [OF Some] eraseUpdatedAt_def saveOrder_def)
qed

lemma deliver_success:
  assumes "successFor ref sg" and "accepted crypto sg"
  shows "fst (fst (deliver crypto ref sg d)) = 200"
    and "snd (deliver crypto ref sg d) = applyPaymentSucceeded (signalTime sg) (Some ref) d"
  using assms
  by (cases sg; simp add: postPaymentsVerify_def webhookHandler_def referenceText_def
      split: verifyReply.splits option.splits)+

lemma deliverAll_success:
  assumes "list_all (successFor ref) sigs" and "list_all (accepted crypto) sigs"
    and "sigs \<noteq> []"
  shows "list_all (\<lambda>r. fst r = 200) (fst (deliverAll crypto ref sigs d))
         \<and> snd (deliverAll crypto ref sigs d) =
             applyPaymentSucceeded (signalTime (last sigs)) (Some ref) d"
  using assms
proof (induction sigs arbitrary: d)
  case Nil
  then show ?case by simp
next
  case (Cons s ss)
  obtain r d1 where sd: "deliver crypto ref s d = (r, d1)" by (cases "deliver crypto ref s d")
  from Cons.prems have s: "successFor ref s" and a: "accepted crypto s" by simp_all
  have r: "fst r = 200" and d1: "d1 = applyPaymentSucceeded (signalTime s) (Some ref) d"
    using deliver_success [OF s a, of d] sd by simp_all
  show ?case
  proof (cases "ss = []")
    case True
    then show ?thesis by (simp add: sd r d1)
  next
    case False
    obtain rs d2 where sa: "deliverAll crypto ref ss d1 = (rs, d2)"
      by (cases "deliverAll crypto ref ss d1")
    from Cons.prems have "list_all (successFor ref) ss" and "list_all (accepted crypto) ss"
      by simp_all
    from Cons.IH [OF this False, of d1] sa
    have rs: "list_all (\<lambda>r. fst r = 200) rs"
      and d2: "d2 = applyPaymentSucceeded (signalTime (last ss)) (Some ref) d1"
      by simp_all
    have "d2 = applyPaymentSucceeded (signalTime (last ss)) (Some ref) d"
      by (simp only: d2 d1 applyPaymentSucceeded_twice)
    with rs r False show ?thesis by (simp add: sd sa)
  qed
qed

text \<open>
  What does hold. Let success signals for the reference of a stored order arrive one after
  the other, in any order and any number, each of them a verify call or a webhook delivery
  that the handler can check (\<open>accepted\<close>: as server.js runs, the verify calls). Every one
  is answered 200; the store after all of them is the store after the first one alone, up
  to \<open>updatedAt\<close>; and the order is still found under its reference with \<open>status\<close> paid and
  \<open>paymentStatus\<close> success.
\<close>

lemma success_signals_idempotent:
  assumes "findOrderByReference (Some ref) d = Some ord"
    and "list_all (successFor ref) (s # ss)"
    and "list_all (accepted crypto) (s # ss)"
  shows "list_all (\<lambda>r. fst r = 200) (fst (deliverAll crypto ref (s # ss) d))
     \<and> eraseUpdatedAt (snd (deliverAll crypto ref (s # ss) d)) =
         eraseUpdatedAt (snd (deliver crypto ref s d))
     \<and> (\<exists>ord'. findOrderByReference (Some ref) (snd (deliverAll crypto ref (s # ss) d)) = Some ord'
            \<and> status ord' = Paid \<and> paymentStatus ord' = PaySuccess)"
proof -
  have all: "list_all (\<lambda>r. fst r = 200) (fst (deliverAll crypto ref (s # ss) d))"
    and fin: "snd (deliverAll crypto ref (s # ss) d) =
                applyPaymentSucceeded (signalTime (last (s # ss))) (Some ref) d"
    using deliverAll_success [OF assms(2,3), of d] by simp_all
  from assms(2,3) have "successFor ref s" and "accepted crypto s" by simp_all
  then have one: "snd (deliver crypto ref s d) = applyPaymentSucceeded (signalTime s) (Some ref) d"
    by (rule deliver_success(2))
  have same: "eraseUpdatedAt (snd (deliverAll crypto ref (s # ss) d)) =
      eraseUpdatedAt (snd (deliver crypto ref s d))"
    by (simp only: fin one) (rule eraseUpdatedAt_applyPaymentSucceeded)
  let ?ord' = "ord\<lparr>paymentStatus := PaySuccess, status := Paid,
                    updatedAt := signalTime (last (s # ss))\<rparr>"
  have "findOrderByReference (Some ref) (snd (deliverAll crypto ref (s # ss) d)) = Some ?ord'"
    by (simp only: fin applyPaymentSucceeded_found(2) [OF assms(1)])
  then have "\<exists>ord'. findOrderByReference (Some ref) (snd (deliverAll crypto ref (s # ss) d)) = Some ord'
            \<and> status ord' = Paid \<and> paymentStatus ord' = PaySuccess"
    by (intro exI [of _ ?ord']) simp
  with all same show ?thesis by (intro conjI)
qed

text \<open>
  On an order that is already paid, with the \<open>_id\<close>s of the stored orders distinct, the
  transition changes nothing in the store but that order's \<open>updatedAt\<close>.
\<close>

lemma applyPaymentSucceeded_already_paid:
  assumes "distinct (map order_id (orders d))"
    and "findOrderByReference r d = Some ord"
    and "status ord = Paid" and "paymentStatus ord = PaySuccess"
  shows "eraseUpdatedAt (applyPaymentSucceeded t r d) = eraseUpdatedAt d"
proof -
  let ?ord' = "ord\<lparr>paymentStatus := PaySuccess, status := Paid, updatedAt := t\<rparr>"
  from assms(2) have mem: "ord \<in> set (orders d)"
    using find_Some_holds [of "\<lambda>x. paymentReference x = r" "orders d" ord]
    by (simp add: findOrderByReference_def)
  have "applyPaymentSucceeded t r d = saveOrder ?ord' d"
    by (rule applyPaymentSucceeded_found(1) [OF assms(2)])
  also have "\<dots> = d\<lparr>orders := map (\<lambda>x. if x = ord then ?ord' else x) (orders d)\<rparr>"
    by (rule saveOrder_distinct [OF assms(1) mem]) simp
  finally have a: "applyPaymentSucceeded t r d =
      d\<lparr>orders := map (\<lambda>x. if x = ord then ?ord' else x) (orders d)\<rparr>" .
  have b: "?ord'\<lparr>updatedAt := 0\<rparr> = ord\<lparr>updatedAt := 0\<rparr>"
    using assms(3,4) by (cases ord) simp
  have "map (\<lambda>x. x\<lparr>updatedAt := 0\<rparr>) (map (\<lambda>x. if x = ord then ?ord' else x) (orders d)) =
        map (\<lambda>x. x\<lparr>updatedAt := 0\<rparr>) (orders d)"
    using b by (induction "orders d") auto
  then show ?thesis by (simp add: a eraseUpdatedAt_def)
qed

lemma verify_example_paid:
  "postPaymentsVerify 2000 (gatewayReporting ''success'') (Some ''order_o1_1000'') exampleDb =
     ((200, VerifyPayload ''success'' 20 ''order_o1_1000''), paidDb)"
proof -
  have "applyPaymentSucceeded 2000 (Some ''order_o1_1000'') exampleDb = paidDb"
    by (simp only: applyPaymentSucceeded_found(1) [OF findOrderByReference_example])
      (simp add: saveOrder_def paidDb_def exampleDb_def)
  then show ?thesis
    by (simp add: postPaymentsVerify_def gatewayReporting_def referenceText_def)
qed

lemma verify_again_paid:
  "postPaymentsVerify 4000 (gatewayReporting ''success'') (Some ''order_o1_1000'') paidDb =
     ((200, VerifyPayload ''success'' 20 ''order_o1_1000''),
      exampleDb\<lparr>orders :=
        [exampleOrder\<lparr>paymentStatus := PaySuccess, status := Paid, updatedAt := 4000\<rparr>]\<rparr>)"
proof -
  have f: "findOrderByReference (Some ''order_o1_1000'') paidDb =
      Some (exampleOrder\<lparr>paymentStatus := PaySuccess, status := Paid, updatedAt := 2000\<rparr>)"
    by (simp add: findOrderByReference_def paidDb_def exampleDb_def exampleOrder_def)
  have "applyPaymentSucceeded 4000 (Some ''order_o1_1000'') paidDb =
      exampleDb\<lparr>orders :=
        [exampleOrder\<lparr>paymentStatus := PaySuccess, status := Paid, updatedAt := 4000\<rparr>]\<rparr>"
    by (simp only: applyPaymentSucceeded_found(1) [OF f])
      (simp add: saveOrder_def paidDb_def exampleDb_def)
  then show ?thesis
    by (simp add: postPaymentsVerify_def gatewayReporting_def referenceText_def)
qed

text \<open>
  Claim C4. Applying the success transition to an order that is already paid, through the
  verify path or the webhook path, in any order or repetition, leaves the state that one
  application gives but for \<open>updatedAt\<close>, and never errors. The verify path does so. The
  webhook path does not: server.js never requires \<open>crypto\<close>, so a \<open>charge.success\<close> delivery
  for the order already paid through a verify call is answered \<open>500 Webhook error\<close>;
  verify, webhook, verify are answered 200, 500, 200; and two deliveries to the webhook
  alone are both answered 500 and leave the order pending.
\<close>

theorem webhook_delivery_errors:
  "postPaymentsVerify 2000 (gatewayReporting ''success'') (Some ''order_o1_1000'') exampleDb =
     ((200, VerifyPayload ''success'' 20 ''order_o1_1000''), paidDb)
   \<and> successFor ''order_o1_1000''
        (ViaWebhook 3000 ''sk_test'' (chargeSuccess ''order_o1_1000'')
           (Some (exampleHmac ''sk_test'' (chargeSuccess ''order_o1_1000''))))
   \<and> postWebhooksPaystack 3000 (Some ''sk_test'') (chargeSuccess ''order_o1_1000'')
        (Some (exampleHmac ''sk_test'' (chargeSuccess ''order_o1_1000''))) paidDb =
       ((500, Text ''Webhook error''), paidDb)
   \<and> map fst (fst (deliverAll serverCrypto ''order_o1_1000''
        [ViaVerify 2000 (gatewayReporting ''success''),
         ViaWebhook 3000 ''sk_test'' (chargeSuccess ''order_o1_1000'')
           (Some (exampleHmac ''sk_test'' (chargeSuccess ''order_o1_1000''))),
         ViaVerify 4000 (gatewayReporting ''success'')] exampleDb)) = [200, 500, 200]
   \<and> deliverAll serverCrypto ''order_o1_1000''
        [ViaWebhook 3000 ''sk_test'' (chargeSuccess ''order_o1_1000'')
           (Some (exampleHmac ''sk_test'' (chargeSuccess ''order_o1_1000''))),
         ViaWebhook 3500 ''sk_test'' (chargeSuccess ''order_o1_1000'')
           (Some (exampleHmac ''sk_test'' (chargeSuccess ''order_o1_1000'')))] exampleDb =
       ([(500, Text ''Webhook error''), (500, Text ''Webhook error'')], exampleDb)"
proof (intro conjI)
  show "postPaymentsVerify 2000 (gatewayReporting ''success'') (Some ''order_o1_1000'') exampleDb =
     ((200, VerifyPayload ''success'' 20 ''order_o1_1000''), paidDb)"
    by (rule verify_example_paid)
  show "successFor ''order_o1_1000''
        (ViaWebhook 3000 ''sk_test'' (chargeSuccess ''order_o1_1000'')
           (Some (exampleHmac ''sk_test'' (chargeSuccess ''order_o1_1000''))))"
    by (simp add: chargeSuccess_def)
  show "postWebhooksPaystack 3000 (Some ''sk_test'') (chargeSuccess ''order_o1_1000'')
        (Some (exampleHmac ''sk_test'' (chargeSuccess ''order_o1_1000''))) paidDb =
       ((500, Text ''Webhook error''), paidDb)"
    by (rule postWebhooksPaystack_throws)
  have w: "webhookHandler serverCrypto t secret body signature d = ((500, Text ''Webhook error''), d)"
    for t secret body signature d
    by (simp add: webhookHandler_def serverCrypto_def)
  show "map fst (fst (deliverAll serverCrypto ''order_o1_1000''
        [ViaVerify 2000 (gatewayReporting ''success''),
         ViaWebhook 3000 ''sk_test'' (chargeSuccess ''order_o1_1000'')
           (Some (exampleHmac ''sk_test'' (chargeSuccess ''order_o1_1000''))),
         ViaVerify 4000 (gatewayReporting ''success'')] exampleDb)) = [200, 500, 200]"
    by (simp add: verify_example_paid verify_again_paid w)
  show "deliverAll serverCrypto ''order_o1_1000''
        [ViaWebhook 3000 ''sk_test'' (chargeSuccess ''order_o1_1000'')
           (Some (exampleHmac ''sk_test'' (chargeSuccess ''order_o1_1000''))),
         ViaWebhook 3500 ''sk_test'' (chargeSuccess ''order_o1_1000'')
           (Some (exampleHmac ''sk_test'' (chargeSuccess ''order_o1_1000'')))] exampleDb =
       ([(500, Text ''Webhook error''), (500, Text ''Webhook error'')], exampleDb)"
    by (simp add: w)
qed

end
